theory Spec2Isabelle
  imports Main "HOL-Library.Word" "HOL-Library.AList" "HOL-Library.List_Lexorder"
    "HOL-Library.Multiset"
begin

section \<open>The structural indexer of analyze\_repo.py\<close>

text \<open>
  The development embeds \<^verbatim>\<open>src/analyze_repo.py\<close>: the helper \<^verbatim>\<open>get_node_text\<close>,
  the per-file extractor \<^verbatim>\<open>parse_file_data\<close> and the driver \<^verbatim>\<open>main\<close>.
  The tree-sitter language pack, the file system and the Python library functions the
  script calls are outside the repository. The library functions whose result decides
  which record is produced (\<^verbatim>\<open>bytes.decode\<close>, \<^verbatim>\<open>str.strip\<close>, \<^verbatim>\<open>bytes.strip\<close>,
  \<^verbatim>\<open>os.path.splitext\<close>, \<^verbatim>\<open>os.path.join\<close>, \<^verbatim>\<open>json.dump\<close>) are written out after
  their CPython behaviour; the parser, the query engine and the file system are parameters.
\<close>

subsection \<open>Python values\<close>

text \<open>
  A Python \<^verbatim>\<open>str\<close> is a sequence of Unicode code points; comparison of two \<^verbatim>\<open>str\<close> is
  lexicographic by code point, which is the order of the theory List_Lexorder
  on lists of naturals. A \<^verbatim>\<open>bytes\<close> object is a list of 8-bit words. Literal keys,
  capture names and query strings of the source are ASCII and kept as HOL strings;
  \<open>ascii\<close> reads such a literal as a Python \<^verbatim>\<open>str\<close>.
\<close>

type_synonym pystr = "nat list"
type_synonym byte = "8 word"
type_synonym bytes = "byte list"

definition ascii :: "string \<Rightarrow> pystr" where
  "ascii s = map of_char s"

text \<open>An exception object \<^verbatim>\<open>e\<close>: \<^verbatim>\<open>type(e).__name__\<close> and \<^verbatim>\<open>str(e)\<close>.\<close>

datatype exn = Exn (exn_type: string) (exn_str: pystr)

text \<open>The values stored under the keys of a file's entry: a list of strings, a string, \<^verbatim>\<open>None\<close>.\<close>

datatype pyval = PyList "pystr list" | PyStr pystr | PyNone

type_synonym entry = "(string \<times> pyval) list"

subsection \<open>Library functions\<close>

text \<open>
  \<^verbatim>\<open>xs[a:b]\<close> for offsets \<open>a, b \<ge> 0\<close>: the slice is cut at the end of the data
  and is empty when \<open>b \<le> a\<close>.
\<close>

definition slice :: "'a list \<Rightarrow> nat \<Rightarrow> nat \<Rightarrow> 'a list" where
  "slice xs a b = drop a (take b xs)"

text \<open>
  \<^verbatim>\<open>str.strip(chars)\<close>: leading and trailing characters that occur in \<^verbatim>\<open>chars\<close> are removed.
\<close>

definition str_strip :: "pystr \<Rightarrow> pystr \<Rightarrow> pystr" where
  "str_strip chars s =
     rev (dropWhile (\<lambda>c. c \<in> set chars) (rev (dropWhile (\<lambda>c. c \<in> set chars) s)))"

text \<open>
  \<^verbatim>\<open>bytes.strip()\<close> without argument removes leading and trailing ASCII whitespace:
  tab, line feed, vertical tab, form feed, carriage return and space.
\<close>

definition is_space :: "byte \<Rightarrow> bool" where
  "is_space b \<longleftrightarrow> b \<in> set [0x09, 0x0A, 0x0B, 0x0C, 0x0D, 0x20]"

definition bytes_strip :: "bytes \<Rightarrow> bytes" where
  "bytes_strip bs = rev (dropWhile is_space (rev (dropWhile is_space bs)))"

text \<open>
  \<^verbatim>\<open>bytes.decode('utf-8', errors=...)\<close>. The decoder reads one well-formed sequence
  (Unicode table 3-7: no overlong forms, no surrogates, nothing above U+10FFFF) or
  finds an undecodable range: an invalid start byte (range of one byte), an invalid
  continuation byte (the range is the bytes before it), or the end of the data inside a
  sequence (the range is the rest). \<open>utf8_first\<close> returns the code point or \<open>None\<close>,
  and the number of bytes of the sequence or of the range.
\<close>

definition is_continuation_byte :: "nat \<Rightarrow> bool" where
  "is_continuation_byte b \<longleftrightarrow> 0x80 \<le> b \<and> b < 0xC0"

fun utf8_first :: "nat list \<Rightarrow> nat option \<times> nat" where
  "utf8_first [] = (None, 0)"
| "utf8_first (ch # s) =
    (if ch < 0x80 then (Some ch, 1)
     else if ch < 0xC2 then (None, 1)
     else if ch < 0xE0 then
       (case s of
          [] \<Rightarrow> (None, 1)
        | ch2 # _ \<Rightarrow>
            if \<not> is_continuation_byte ch2 then (None, 1)
            else (Some ((ch - 0xC0) * 0x40 + (ch2 - 0x80)), 2))
     else if ch < 0xF0 then
       (case s of
          [] \<Rightarrow> (None, 1)
        | ch2 # s2 \<Rightarrow>
            if \<not> is_continuation_byte ch2 \<or> (if ch2 < 0xA0 then ch = 0xE0 else ch = 0xED)
            then (None, 1)
            else (case s2 of
                    [] \<Rightarrow> (None, 2)
                  | ch3 # _ \<Rightarrow>
                      if \<not> is_continuation_byte ch3 then (None, 2)
                      else (Some ((ch - 0xE0) * 0x1000 + (ch2 - 0x80) * 0x40 + (ch3 - 0x80)), 3)))
     else if ch < 0xF5 then
       (case s of
          [] \<Rightarrow> (None, 1)
        | ch2 # s2 \<Rightarrow>
            if \<not> is_continuation_byte ch2 \<or> (if ch2 < 0x90 then ch = 0xF0 else ch = 0xF4)
            then (None, 1)
            else (case s2 of
                    [] \<Rightarrow> (None, 2)
                  | ch3 # s3 \<Rightarrow>
                      if \<not> is_continuation_byte ch3 then (None, 2)
                      else (case s3 of
                              [] \<Rightarrow> (None, 3)
                            | ch4 # _ \<Rightarrow>
                                if \<not> is_continuation_byte ch4 then (None, 3)
                                else (Some ((ch - 0xF0) * 0x40000 + (ch2 - 0x80) * 0x1000
                                            + (ch3 - 0x80) * 0x40 + (ch4 - 0x80)), 4))))
     else (None, 1))"

text \<open>
  The error handlers the decoder is called with: \<^verbatim>\<open>'ignore'\<close> resumes after the
  undecodable range and adds nothing, \<^verbatim>\<open>'replace'\<close> adds U+FFFD. (\<^verbatim>\<open>'strict'\<close>, which
  raises, is not used by the script.)
\<close>

datatype errors = Ignore | Replace

fun on_error :: "errors \<Rightarrow> pystr" where
  "on_error Ignore = []"
| "on_error Replace = [0xFFFD]"

function utf8_decode :: "errors \<Rightarrow> nat list \<Rightarrow> pystr" where
  "utf8_decode h [] = []"
| "utf8_decode h (ch # s) =
    (case utf8_first (ch # s) of
       (Some c, n) \<Rightarrow> c # utf8_decode h (drop n (ch # s))
     | (None, n) \<Rightarrow> on_error h @ utf8_decode h (drop n (ch # s)))"
  by pat_completeness auto
termination
  by (relation "measure (\<lambda>(h, bs). length bs)")
     (auto split: if_splits list.splits)

definition decode :: "bytes \<Rightarrow> errors \<Rightarrow> pystr" where
  "decode bs h = utf8_decode h (map unat bs)"

text \<open>\<^verbatim>\<open>sep.join(parts)\<close>.\<close>

fun join :: "'a list \<Rightarrow> 'a list list \<Rightarrow> 'a list" where
  "join sep [] = []"
| "join sep [x] = x"
| "join sep (x # y # ys) = x @ sep @ join sep (y # ys)"

subsection \<open>os.path\<close>

text \<open>\<^verbatim>\<open>p.rfind(c)\<close>: the highest index of \<open>c\<close> in \<open>p\<close>, or -1.\<close>

fun rfind_from :: "nat \<Rightarrow> pystr \<Rightarrow> nat \<Rightarrow> int \<Rightarrow> int" where
  "rfind_from c [] i found = found"
| "rfind_from c (x # xs) i found = rfind_from c xs (Suc i) (if x = c then int i else found)"

definition rfind :: "pystr \<Rightarrow> nat \<Rightarrow> int" where
  "rfind p c = rfind_from c p 0 (- 1)"

text \<open>
  \<^verbatim>\<open>os.path.splitext\<close> on POSIX (separator \<^verbatim>\<open>/\<close>, code point 47; extension separator
  \<^verbatim>\<open>.\<close>, code point 46). The extension starts at the last dot of the last path
  component, unless only dots precede it there: the loop of the library function looks
  for a character other than a dot at the indices from \<open>sepIndex + 1\<close> up to \<open>dotIndex\<close>.
\<close>

definition splitext :: "pystr \<Rightarrow> pystr \<times> pystr" where
  "splitext p =
     (let sepIndex = rfind p 0x2F; dotIndex = rfind p 0x2E in
      if dotIndex > sepIndex
         \<and> list_ex (\<lambda>c. c \<noteq> 0x2E) (slice p (nat (sepIndex + 1)) (nat dotIndex))
      then (take (nat dotIndex) p, drop (nat dotIndex) p)
      else (p, []))"

text \<open>\<^verbatim>\<open>os.path.join(a, b)\<close> on POSIX.\<close>

definition path_join :: "pystr \<Rightarrow> pystr \<Rightarrow> pystr" where
  "path_join a b =
     (if take 1 b = [0x2F] then b
      else if a = [] \<or> last a = 0x2F then a @ b
      else a @ [0x2F] @ b)"

subsection \<open>json.dump with indent=4\<close>

text \<open>
  The encoder escapes with \<^verbatim>\<open>ensure_ascii\<close>: backslash, double quote and the control
  characters with a short form get it; other characters outside space..tilde become
  \<^verbatim>\<open>\uXXXX\<close> (lower-case hex), as a surrogate pair above U+FFFF. The text written is
  ASCII, so the characters of the document are its bytes.
\<close>

definition hex_digit :: "nat \<Rightarrow> char" where
  "hex_digit n = ''0123456789abcdef'' ! (n mod 16)"

definition hex4 :: "nat \<Rightarrow> string" where
  "hex4 n = [hex_digit (n div 4096), hex_digit (n div 256), hex_digit (n div 16), hex_digit n]"

definition json_escape :: "nat \<Rightarrow> string" where
  "json_escape n =
     (if n = 0x5C then [CHR 0x5C, CHR 0x5C]
      else if n = 0x22 then [CHR 0x5C, CHR 0x22]
      else if n = 0x08 then [CHR 0x5C, CHR ''b'']
      else if n = 0x0C then [CHR 0x5C, CHR ''f'']
      else if n = 0x0A then [CHR 0x5C, CHR ''n'']
      else if n = 0x0D then [CHR 0x5C, CHR ''r'']
      else if n = 0x09 then [CHR 0x5C, CHR ''t'']
      else if 0x20 \<le> n \<and> n \<le> 0x7E then [char_of n]
      else if n < 0x10000 then CHR 0x5C # CHR ''u'' # hex4 n
      else (let m = n - 0x10000;
                s1 = 0xD800 + (m div 0x400) mod 0x400;
                s2 = 0xDC00 + m mod 0x400
            in CHR 0x5C # CHR ''u'' # hex4 s1 @ CHR 0x5C # CHR ''u'' # hex4 s2))"

definition encode_basestring_ascii :: "pystr \<Rightarrow> string" where
  "encode_basestring_ascii s = CHR 0x22 # concat (map json_escape s) @ [CHR 0x22]"

definition newline_indent :: "nat \<Rightarrow> string" where
  "newline_indent level = CHR 0x0A # replicate (4 * level) CHR '' ''"

text \<open>A list or a dictionary whose items are already encoded, at nesting depth \<open>level\<close>.\<close>

definition json_list :: "nat \<Rightarrow> string list \<Rightarrow> string" where
  "json_list level items =
     (if items = [] then ''[]''
      else ''['' @ newline_indent (level + 1)
           @ join ('','' @ newline_indent (level + 1)) items
           @ newline_indent level @ '']'')"

definition json_dict :: "nat \<Rightarrow> (string \<times> string) list \<Rightarrow> string" where
  "json_dict level items =
     (if items = [] then ''{}''
      else ''{'' @ newline_indent (level + 1)
           @ join ('','' @ newline_indent (level + 1)) (map (\<lambda>(k, v). k @ '': '' @ v) items)
           @ newline_indent level @ ''}'')"

fun json_value :: "nat \<Rightarrow> pyval \<Rightarrow> string" where
  "json_value level PyNone = ''null''"
| "json_value level (PyStr s) = encode_basestring_ascii s"
| "json_value level (PyList xs) = json_list level (map encode_basestring_ascii xs)"

definition json_entry :: "nat \<Rightarrow> entry \<Rightarrow> string" where
  "json_entry level e =
     json_dict level (map (\<lambda>(k, v). (encode_basestring_ascii (ascii k), json_value (level + 1) v)) e)"

definition json_dumps :: "(pystr \<times> entry) list \<Rightarrow> string" where
  "json_dumps repo =
     json_dict 0 (map (\<lambda>(file_path, e). (encode_basestring_ascii file_path, json_entry 1 e)) repo)"


subsection \<open>Helper functions of the script\<close>

record node =
  start_byte :: nat
  end_byte :: nat

definition get_node_text :: "node \<Rightarrow> bytes \<Rightarrow> pystr" where
  "get_node_text node content_bytes =
     decode (slice content_bytes (start_byte node) (end_byte node)) Ignore"

text \<open>
  Line 67 of the script, \<^verbatim>\<open>sorted(list(set(xs)))\<close>: the set forgets order and
  multiplicity, and \<^verbatim>\<open>sorted\<close> of distinct strings is their one ascending arrangement.
\<close>

definition normalize_texts :: "pystr list \<Rightarrow> pystr list" where
  "normalize_texts xs = sort (remdups xs)"

subsection \<open>The world outside the script\<close>

text \<open>
  The tree-sitter objects. A parser maps the bytes of a file to a tree or raises; a
  language object compiles a query string or raises; a compiled query, run on (the root
  node of) a tree, gives the dictionary from capture name to captured nodes, or raises.
\<close>

type_synonym 'tree query = "'tree \<Rightarrow> exn + (string \<Rightarrow> node list option)"
type_synonym 'tree language = "string \<Rightarrow> exn + 'tree query"
type_synonym 'tree parser = "bytes \<Rightarrow> exn + 'tree"

text \<open>
  What a run of the script sees: the language pack, \<^verbatim>\<open>os.path.exists\<close>, the triples
  \<^verbatim>\<open>(root, dirs, files)\<close> that \<^verbatim>\<open>os.walk\<close> yields, in the order it yields them, the
  result of opening and reading a file in binary mode, and whether opening a file for
  writing fails.
\<close>

record 'tree env =
  get_language :: "string \<Rightarrow> exn + 'tree language"
  get_parser :: "string \<Rightarrow> exn + 'tree parser"
  os_path_exists :: "pystr \<Rightarrow> bool"
  os_walk :: "pystr \<Rightarrow> (pystr \<times> pystr list \<times> pystr list) list"
  read_file :: "pystr \<Rightarrow> exn + bytes"
  open_write :: "pystr \<Rightarrow> exn option"

text \<open>
  Standard output is the list of \<^verbatim>\<open>print\<close> calls, one constructor per \<^verbatim>\<open>print\<close> statement
  of the script, carrying the values its format string interpolates.
\<close>

datatype message =
    Loading_languages
  | Cpp_loaded
  | Error_loading exn
  | Ensure_installed
  | Source_directory_not_found pystr
  | Analyzing_repository pystr
  | Analyzing_cpp_file pystr
  | Analyzing_python_file pystr
  | File_is_empty pystr
  | Error_analyzing_file pystr exn
  | Error_executing_query string "string list" exn
  | No_valid_source_files
  | Saved_to pystr
  | Analyzed_files nat
  | Error_writing pystr exn

subsection \<open>Configuration\<close>

definition SRC_DIR :: pystr where
  "SRC_DIR = ascii ''./src''"

definition OUTPUT_JSON :: pystr where
  "OUTPUT_JSON = ascii ''./repo_structure.json''"

definition VALID_CPP_EXTENSIONS :: "pystr set" where
  "VALID_CPP_EXTENSIONS = {ascii ''.h'', ascii ''.cpp'', ascii ''.i''}"

definition VALID_PYTHON_EXTENSIONS :: "pystr set" where
  "VALID_PYTHON_EXTENSIONS = {ascii ''.py''}"

definition CPP_INCLUDE_QUERY_STR :: string where
  "CPP_INCLUDE_QUERY_STR =
     CHR 0x0A # ''(preproc_include path: (string_literal) @include_path)''
     @ CHR 0x0A # ''(preproc_include path: (system_lib_string) @include_path)''
     @ [CHR 0x0A]"

definition CPP_FUNCTION_QUERY_STR :: string where
  "CPP_FUNCTION_QUERY_STR =
     CHR 0x0A # ''(function_definition declarator: (function_declarator declarator: (identifier) @function_name))''
     @ CHR 0x0A # ''(function_definition declarator: (identifier) @function_name)''
     @ [CHR 0x0A]"

definition CPP_CLASS_QUERY_STR :: string where
  "CPP_CLASS_QUERY_STR =
     CHR 0x0A # ''(class_specifier name: (type_identifier) @class_name)''
     @ CHR 0x0A # ''(struct_specifier name: (type_identifier) @class_name)''
     @ [CHR 0x0A]"

definition PYTHON_IMPORT_QUERY_STR :: string where
  "PYTHON_IMPORT_QUERY_STR =
     CHR 0x0A # ''(import_statement name: (dotted_name (identifier) @module_part)) @import_statement''
     @ CHR 0x0A # ''(import_from_statement module_name: (dotted_name (identifier) @module_part) name: (dotted_name (identifier) @name_part) @import_from_statement)''
     @ CHR 0x0A # ''; We capture @module_part for simple imports, and both for from_imports.''
     @ CHR 0x0A # ''; For from_imports, we might want to combine module_part and name_part later.''
     @ [CHR 0x0A]"

definition PYTHON_FUNCTION_QUERY_STR :: string where
  "PYTHON_FUNCTION_QUERY_STR = ''(function_definition name: (identifier) @function_name)''"

definition PYTHON_CLASS_QUERY_STR :: string where
  "PYTHON_CLASS_QUERY_STR = ''(class_definition name: (identifier) @class_name)''"

text \<open>
  The query definitions of \<^verbatim>\<open>main\<close>: dictionaries in insertion order, from the key of the
  output list to the query string and the capture names that feed the list.
\<close>

record query_info =
  query_string :: string
  capture_names :: "string list"

definition cpp_query_definitions :: "(string \<times> query_info) list" where
  "cpp_query_definitions =
     [(''includes'', \<lparr>query_string = CPP_INCLUDE_QUERY_STR, capture_names = [''include_path'']\<rparr>),
      (''functions'', \<lparr>query_string = CPP_FUNCTION_QUERY_STR, capture_names = [''function_name'']\<rparr>),
      (''classes'', \<lparr>query_string = CPP_CLASS_QUERY_STR, capture_names = [''class_name'']\<rparr>)]"

definition python_query_definitions :: "(string \<times> query_info) list" where
  "python_query_definitions =
     [(''imports'', \<lparr>query_string = PYTHON_IMPORT_QUERY_STR,
                     capture_names = [''module_part'', ''name_part'']\<rparr>),
      (''functions'', \<lparr>query_string = PYTHON_FUNCTION_QUERY_STR, capture_names = [''function_name'']\<rparr>),
      (''classes'', \<lparr>query_string = PYTHON_CLASS_QUERY_STR, capture_names = [''class_name'']\<rparr>)]"

text \<open>
  Lines 79 and 80 of \<^verbatim>\<open>main\<close>: the Python language object and parser are \<^verbatim>\<open>None\<close>; the
  lines that would load them are commented out.
\<close>

definition python_lang_obj :: "'tree language option" where
  "python_lang_obj = None"

definition python_parser :: "'tree parser option" where
  "python_parser = None"

subsection \<open>parse\_file\_data\<close>

text \<open>
  Lines 58 to 62: the texts of the captured nodes, with the characters
  \<^verbatim>\<open>"\<close>, \<^verbatim>\<open><\<close>, \<^verbatim>\<open>>\<close> stripped from both ends under the keys \<^verbatim>\<open>includes\<close> and \<^verbatim>\<open>imports\<close>.
\<close>

definition node_texts :: "string \<Rightarrow> bytes \<Rightarrow> node list \<Rightarrow> pystr list" where
  "node_texts data_key content_bytes nodes =
     map (\<lambda>node.
            let text_to_add = get_node_text node content_bytes in
            if data_key = ''includes'' \<or> data_key = ''imports''
            then str_strip (ascii [CHR 0x22, CHR ''<'', CHR ''>'']) text_to_add
            else text_to_add)
         nodes"

text \<open>Lines 56 and 57: the capture names in their order, those absent from the result skipped.\<close>

definition captured_texts ::
  "string \<Rightarrow> bytes \<Rightarrow> string list \<Rightarrow> (string \<Rightarrow> node list option) \<Rightarrow> pystr list" where
  "captured_texts data_key content_bytes names captures_dict =
     concat (map (\<lambda>capture_name_in_query.
                    case captures_dict capture_name_in_query of
                      None \<Rightarrow> []
                    | Some nodes \<Rightarrow> node_texts data_key content_bytes nodes)
                 names)"

text \<open>
  The body of the \<^verbatim>\<open>try\<close> of lines 52 to 62. Compiling the query or running it may raise
  (calling \<^verbatim>\<open>query\<close> on \<^verbatim>\<open>None\<close> raises \<^verbatim>\<open>AttributeError\<close>); both happen before the first
  text is appended, and extracting and stripping texts does not raise.
\<close>

definition run_query ::
  "'tree language option \<Rightarrow> 'tree \<Rightarrow> bytes \<Rightarrow> string \<Rightarrow> query_info \<Rightarrow> exn + pystr list" where
  "run_query lang_obj tree content_bytes data_key info =
     (case lang_obj of
        None \<Rightarrow>
          Inl (Exn ''AttributeError''
                 (ascii (CHR 0x27 # ''NoneType'' @ CHR 0x27 # '' object has no attribute ''
                         @ CHR 0x27 # ''query'' @ [CHR 0x27])))
      | Some lang \<Rightarrow>
          (case lang (query_string info) of
             Inl e \<Rightarrow> Inl e
           | Inr query \<Rightarrow>
               (case query tree of
                  Inl e \<Rightarrow> Inl e
                | Inr captures_dict \<Rightarrow>
                    Inr (captured_texts data_key content_bytes (capture_names info) captures_dict))))"

text \<open>
  One round of the loop of lines 46 to 64, on the dictionary \<^verbatim>\<open>file_data\<close> and the lines
  printed so far. An exception of the \<^verbatim>\<open>try\<close> is printed and the loop goes on.
\<close>

definition query_step ::
  "'tree language option \<Rightarrow> 'tree \<Rightarrow> bytes \<Rightarrow> string \<times> query_info
   \<Rightarrow> (string \<times> pystr list) list \<times> message list \<Rightarrow> (string \<times> pystr list) list \<times> message list" where
  "query_step lang_obj tree content_bytes item acc =
     (let data_key = fst item; info = snd item;
          file_data = AList.update data_key [] (fst acc)
      in if query_string info = [] \<or> capture_names info = [] then (file_data, snd acc)
         else (case run_query lang_obj tree content_bytes data_key info of
                 Inr texts \<Rightarrow> (AList.update data_key ([] @ texts) file_data, snd acc)
               | Inl e \<Rightarrow>
                   (file_data, snd acc @ [Error_executing_query data_key (capture_names info) e])))"

text \<open>
  \<^verbatim>\<open>parse_file_data\<close>: an exception of \<^verbatim>\<open>parser.parse\<close> leaves the function; otherwise the
  result is the dictionary of the normalized lists, together with the lines printed.
\<close>

definition parse_file_data ::
  "'tree parser \<Rightarrow> bytes \<Rightarrow> (string \<times> query_info) list \<Rightarrow> 'tree language option
   \<Rightarrow> exn + (string \<times> pystr list) list \<times> message list" where
  "parse_file_data parser content_bytes query_definitions lang_obj =
     (case parser content_bytes of
        Inl e \<Rightarrow> Inl e
      | Inr tree \<Rightarrow>
          (let acc = fold (query_step lang_obj tree content_bytes) query_definitions ([], [])
           in Inr (map (\<lambda>kv. (fst kv, normalize_texts (snd kv))) (fst acc), snd acc)))"

subsection \<open>main\<close>

text \<open>
  Line 143 to 145, the entry of an empty file: the template with \<^verbatim>\<open>error\<close> set, then
  \<^verbatim>\<open>del entry['error']\<close>, then every remaining key is assigned.
\<close>

definition empty_file_entry :: "entry \<Rightarrow> entry" where
  "empty_file_entry output_data_template =
     (let entry = AList.update ''error'' (PyStr (ascii ''empty file'')) output_data_template;
          entry = AList.delete ''error'' entry
      in map (\<lambda>kv. (fst kv, if fst kv \<noteq> ''error'' then PyList [] else PyStr (ascii ''empty file'')))
             entry)"

text \<open>Lines 154 and 155, the entry stored by the exception handler of the file.\<close>

definition exception_entry :: "entry \<Rightarrow> exn \<Rightarrow> entry" where
  "exception_entry output_data_template e =
     (let entry = AList.update ''error'' (PyStr (exn_str e)) output_data_template
      in map (\<lambda>kv. (fst kv, if fst kv \<noteq> ''error'' then PyList [] else PyStr (exn_str e))) entry)"

text \<open>
  Lines 138 to 156: the \<^verbatim>\<open>try\<close> statement of one file. Each of its paths stores one entry
  under the path of the file and goes on with the next file; the result is that entry
  and what the paths print.
\<close>

definition analyze_file ::
  "'tree env \<Rightarrow> 'tree parser \<Rightarrow> (string \<times> query_info) list \<Rightarrow> 'tree language option \<Rightarrow> entry
   \<Rightarrow> pystr \<Rightarrow> entry \<times> message list" where
  "analyze_file env current_parser current_query_definitions current_lang_obj
       output_data_template file_path =
     (case read_file env file_path of
        Inl e \<Rightarrow> (exception_entry output_data_template e, [Error_analyzing_file file_path e])
      | Inr content_bytes \<Rightarrow>
          if bytes_strip content_bytes = []
          then (empty_file_entry output_data_template, [File_is_empty file_path])
          else (case parse_file_data current_parser content_bytes current_query_definitions
                       current_lang_obj of
                  Inl e \<Rightarrow> (exception_entry output_data_template e, [Error_analyzing_file file_path e])
                | Inr analysis \<Rightarrow> (map (\<lambda>kv. (fst kv, PyList (snd kv))) (fst analysis), snd analysis)))"

text \<open>The variables of the loop of \<^verbatim>\<open>main\<close>.\<close>

record state =
  repo_structure :: "(pystr \<times> entry) list"
  file_count :: nat
  printed :: "message list"

definition store_file ::
  "'tree env \<Rightarrow> 'tree parser \<Rightarrow> (string \<times> query_info) list \<Rightarrow> 'tree language option \<Rightarrow> entry
   \<Rightarrow> pystr \<Rightarrow> state \<Rightarrow> state" where
  "store_file env current_parser current_query_definitions current_lang_obj
       output_data_template file_path st =
     (let r = analyze_file env current_parser current_query_definitions current_lang_obj
                output_data_template file_path
      in \<lparr>repo_structure = AList.update file_path (fst r) (repo_structure st),
          file_count = file_count st + 1,
          printed = printed st @ snd r\<rparr>)"

text \<open>Line 121: the template of an entry, until line 132 replaces it for a Python file.\<close>

definition output_data_template :: entry where
  "output_data_template =
     [(''includes'', PyList []), (''functions'', PyList []), (''classes'', PyList []),
      (''error'', PyNone)]"

text \<open>Lines 115 to 156: one file name of the walk.\<close>

definition visit_file ::
  "'tree env \<Rightarrow> 'tree parser \<Rightarrow> 'tree language \<Rightarrow> pystr \<Rightarrow> pystr \<Rightarrow> state \<Rightarrow> state" where
  "visit_file env cpp_parser cpp_lang_obj root filename st =
     (let file_path = path_join root filename;
          extension = snd (splitext filename)
      in if extension \<in> VALID_CPP_EXTENSIONS
         then store_file env cpp_parser cpp_query_definitions (Some cpp_lang_obj)
                output_data_template file_path
                (st\<lparr>printed := printed st @ [Analyzing_cpp_file file_path]\<rparr>)
         else if extension \<in> VALID_PYTHON_EXTENSIONS \<and> python_parser \<noteq> (None :: 'tree parser option)
         then store_file env (the python_parser) python_query_definitions python_lang_obj
                [(''imports'', PyList []), (''functions'', PyList []), (''classes'', PyList []),
                 (''error'', PyNone)]
                file_path
                (st\<lparr>printed := printed st @ [Analyzing_python_file file_path]\<rparr>)
         else st)"

text \<open>Lines 113 and 114: the iteration over the triples of the walk and, inside it, over the file names of a triple.\<close>

definition walk_loop ::
  "'tree env \<Rightarrow> 'tree parser \<Rightarrow> 'tree language \<Rightarrow> state \<Rightarrow> state" where
  "walk_loop env cpp_parser cpp_lang_obj st =
     fold (\<lambda>triple. fold (visit_file env cpp_parser cpp_lang_obj (fst triple)) (snd (snd triple)))
          (os_walk env SRC_DIR) st"

text \<open>Lines 105 and 112, and the line printed before the loop.\<close>

definition initial_state :: state where
  "initial_state =
     \<lparr>repo_structure = [], file_count = 0,
      printed = [Loading_languages, Cpp_loaded, Analyzing_repository SRC_DIR]\<rparr>"

text \<open>
  The result of a run: what it printed and the text it wrote to the output file, if it
  wrote one.
\<close>

record result =
  stdout :: "message list"
  written :: "(pystr \<times> string) option"

definition main :: "'tree env \<Rightarrow> result" where
  "main env =
     (case get_language env ''cpp'' of
        Inl e \<Rightarrow>
          \<lparr>stdout = [Loading_languages, Error_loading e, Ensure_installed], written = None\<rparr>
      | Inr cpp_lang_obj \<Rightarrow>
          (case get_parser env ''cpp'' of
             Inl e \<Rightarrow>
               \<lparr>stdout = [Loading_languages, Error_loading e, Ensure_installed], written = None\<rparr>
           | Inr cpp_parser \<Rightarrow>
               if \<not> os_path_exists env SRC_DIR
               then \<lparr>stdout = [Loading_languages, Cpp_loaded, Source_directory_not_found SRC_DIR],
                     written = None\<rparr>
               else
                 (let st = walk_loop env cpp_parser cpp_lang_obj initial_state
                  in if repo_structure st = []
                     then \<lparr>stdout = printed st @ [No_valid_source_files], written = None\<rparr>
                     else (case open_write env OUTPUT_JSON of
                             Some e \<Rightarrow>
                               \<lparr>stdout = printed st @ [Error_writing OUTPUT_JSON e], written = None\<rparr>
                           | None \<Rightarrow>
                               \<lparr>stdout = printed st @ [Saved_to OUTPUT_JSON, Analyzed_files (file_count st)],
                                written = Some (OUTPUT_JSON, json_dumps (repo_structure st))\<rparr>))))"

subsection \<open>Notions used to state the properties\<close>

text \<open>The pairs of directory and file name of a walk, in the order in which lines 113 and 114 visit them.\<close>

definition walk_files :: "(pystr \<times> pystr list \<times> pystr list) list \<Rightarrow> (pystr \<times> pystr) list" where
  "walk_files w = concat (map (\<lambda>triple. map (Pair (fst triple)) (snd (snd triple))) w)"

text \<open>
  A file name that \<^verbatim>\<open>os.walk\<close> yields is the name of a directory entry: it holds no
  separator.
\<close>

definition entry_name :: "pystr \<Rightarrow> bool" where
  "entry_name filename \<longleftrightarrow> 0x2F \<notin> set filename"

definition entry_names :: "(pystr \<times> pystr list \<times> pystr list) list \<Rightarrow> bool" where
  "entry_names w \<longleftrightarrow> list_all (\<lambda>rf. entry_name (snd rf)) (walk_files w)"

text \<open>The entry that \<^verbatim>\<open>main\<close> stores for a C++-like file at a path.\<close>

definition cpp_entry :: "'tree env \<Rightarrow> 'tree parser \<Rightarrow> 'tree language \<Rightarrow> pystr \<Rightarrow> entry" where
  "cpp_entry env cpp_parser cpp_lang_obj file_path =
     fst (analyze_file env cpp_parser cpp_query_definitions (Some cpp_lang_obj)
            output_data_template file_path)"


subsection \<open>A small source tree\<close>

text \<open>
  A language pack for examples. The tree of a file is its bytes; parsing fails on a
  file that starts with \<^verbatim>\<open>!\<close>. The include query captures the two nodes at bytes 9 to 20
  and 30 to 41, the function query does not compile, the class query captures nothing.
\<close>

definition demo_parser :: "bytes parser" where
  "demo_parser content_bytes =
     (if take 1 content_bytes = [0x21] then Inl (Exn ''ValueError'' (ascii ''parse failed''))
      else Inr content_bytes)"

definition demo_captures :: "string \<Rightarrow> node list option" where
  "demo_captures name =
     (if name = ''include_path''
      then Some [\<lparr>start_byte = 9, end_byte = 20\<rparr>, \<lparr>start_byte = 30, end_byte = 41\<rparr>]
      else None)"

definition demo_query :: "bytes query" where
  "demo_query tree = Inr demo_captures"

definition no_captures :: "bytes query" where
  "no_captures tree = Inr (\<lambda>name. None)"

definition demo_language :: "bytes language" where
  "demo_language query_str =
     (if query_str = CPP_INCLUDE_QUERY_STR then Inr demo_query
      else if query_str = CPP_FUNCTION_QUERY_STR
      then Inl (Exn ''QueryError'' (ascii ''Invalid syntax''))
      else Inr no_captures)"

text \<open>
  The files: \<^verbatim>\<open>empty.h\<close> is empty, \<^verbatim>\<open>blank.i\<close> holds white space, \<^verbatim>\<open>use.cpp\<close> includes
  \<^verbatim>\<open>foo/bar.h\<close> twice, once in quotes and once in angle brackets, \<^verbatim>\<open>bad.h\<close> does not
  parse, \<^verbatim>\<open>tool.py\<close> and \<^verbatim>\<open>README.md\<close> hold a line of text; any other path cannot be read.
\<close>

definition bytes_of :: "string \<Rightarrow> bytes" where
  "bytes_of s = map of_char s"

definition use_cpp_bytes :: bytes where
  "use_cpp_bytes =
     bytes_of (''#include '' @ CHR 0x22 # ''foo/bar.h'' @ CHR 0x22 # CHR 0x0A
               # ''#include <foo/bar.h>'' @ [CHR 0x0A])"

definition demo_read :: "pystr \<Rightarrow> exn + bytes" where
  "demo_read file_path =
     (if file_path = ascii ''./src/empty.h'' then Inr []
      else if file_path = ascii ''./src/blank.i'' then Inr (bytes_of [CHR '' '', CHR 0x0A, CHR 0x09])
      else if file_path = ascii ''./src/use.cpp''
      then Inr use_cpp_bytes
      else if file_path = ascii ''./src/bad.h'' then Inr (bytes_of ''!garbage'')
      else if file_path = ascii ''./src/tool.py'' then Inr (bytes_of ''import os'')
      else if file_path = ascii ''./src/README.md'' then Inr (bytes_of ''# readme'')
      else Inl (Exn ''FileNotFoundError'' (ascii ''No such file'')))"

definition demo_env :: "(pystr \<times> pystr list \<times> pystr list) list \<Rightarrow> bytes env" where
  "demo_env w =
     \<lparr>get_language = (\<lambda>name. Inr demo_language),
      get_parser = (\<lambda>name. Inr demo_parser),
      os_path_exists = (\<lambda>file_path. True),
      os_walk = (\<lambda>top. w),
      read_file = demo_read,
      open_write = (\<lambda>file_path. None)\<rparr>"

definition demo_walk :: "(pystr \<times> pystr list \<times> pystr list) list" where
  "demo_walk =
     [(ascii ''./src'', [],
       [ascii ''empty.h'', ascii ''README.md'', ascii ''use.cpp'', ascii ''tool.py'',
        ascii ''bad.h'', ascii ''gone.i''])]"

definition walk_a_b :: "(pystr \<times> pystr list \<times> pystr list) list" where
  "walk_a_b = [(ascii ''./src'', [], [ascii ''empty.h'', ascii ''blank.i''])]"

definition walk_b_a :: "(pystr \<times> pystr list \<times> pystr list) list" where
  "walk_b_a = [(ascii ''./src'', [], [ascii ''blank.i'', ascii ''empty.h''])]"

definition walk_a_b_split :: "(pystr \<times> pystr list \<times> pystr list) list" where
  "walk_a_b_split =
     [(ascii ''./src'', [ascii ''sub''], [ascii ''empty.h'']), (ascii ''./src/sub'', [], []),
      (ascii ''./src'', [], [ascii ''blank.i''])]"

definition walk_no_sources :: "(pystr \<times> pystr list \<times> pystr list) list" where
  "walk_no_sources = [(ascii ''./src'', [], [ascii ''README.md'', ascii ''tool.py''])]"

section \<open>Properties\<close>

lemma normalize_sorted_list_of_set: "normalize_texts xs = sorted_list_of_set (set xs)"
  by (simp add: normalize_texts_def sorted_list_of_set_sort_remdups)

text \<open>
  C6. Normalization removes duplicates and sorts ascending: the result is strictly
  ascending in code-point lexicographic order (so it has no duplicates), it holds exactly
  the strings of the input, normalizing twice equals normalizing once, and two lists that
  are permutations of each other normalize to the same list.
\<close>

theorem normalize_dedup_sort:
  "normalize_texts (normalize_texts L) = normalize_texts L
   \<and> distinct (normalize_texts L)
   \<and> sorted_wrt (<) (normalize_texts L)
   \<and> set (normalize_texts L) = set L
   \<and> (mset P = mset L \<longrightarrow> normalize_texts P = normalize_texts L)"
proof -
  have s: "set (normalize_texts L) = set L"
    by (simp add: normalize_sorted_list_of_set)
  have i: "normalize_texts (normalize_texts L) = normalize_texts L"
    by (simp add: normalize_sorted_list_of_set)
  have d: "distinct (normalize_texts L)"
    by (simp add: normalize_sorted_list_of_set)
  have a: "sorted_wrt (<) (normalize_texts L)"
    by (simp add: normalize_sorted_list_of_set)
  have p: "mset P = mset L \<longrightarrow> normalize_texts P = normalize_texts L"
  proof
    assume "mset P = mset L"
    then have "set P = set L" by (rule mset_eq_setD)
    then show "normalize_texts P = normalize_texts L"
      by (simp add: normalize_sorted_list_of_set)
  qed
  from i d a s p show ?thesis by blast
qed

theorem normalize_dedup_sort_witness:
  "mset [ascii ''b.h'', ascii ''a.h'', ascii ''b.h''] = mset [ascii ''b.h'', ascii ''b.h'', ascii ''a.h'']
   \<and> normalize_texts [ascii ''b.h'', ascii ''a.h'', ascii ''b.h''] = [ascii ''a.h'', ascii ''b.h'']
   \<and> normalize_texts [ascii ''b.h'', ascii ''b.h'', ascii ''a.h''] = [ascii ''a.h'', ascii ''b.h'']"
proof -
  have m: "mset [ascii ''b.h'', ascii ''a.h'', ascii ''b.h'']
           = mset [ascii ''b.h'', ascii ''b.h'', ascii ''a.h'']"
    by simp
  have n: "normalize_texts [ascii ''b.h'', ascii ''b.h'', ascii ''a.h''] = [ascii ''a.h'', ascii ''b.h'']"
    by (simp add: normalize_texts_def ascii_def)
  from normalize_dedup_sort [of "[ascii ''b.h'', ascii ''b.h'', ascii ''a.h'']"
                                "[ascii ''b.h'', ascii ''a.h'', ascii ''b.h'']"] m n
  show ?thesis by simp
qed

subsection \<open>The loop of main\<close>

lemma python_parser_None: "(python_parser :: 'tree parser option) = None"
  by (simp add: python_parser_def)

lemma visit_file_cpp:
  "snd (splitext filename) \<in> VALID_CPP_EXTENSIONS \<Longrightarrow>
   visit_file env p l root filename st =
     store_file env p cpp_query_definitions (Some l) output_data_template (path_join root filename)
       (st\<lparr>printed := printed st @ [Analyzing_cpp_file (path_join root filename)]\<rparr>)"
  by (simp add: visit_file_def Let_def)

lemma visit_file_skip:
  "snd (splitext filename) \<notin> VALID_CPP_EXTENSIONS \<Longrightarrow> visit_file env p l root filename st = st"
  by (simp add: visit_file_def Let_def python_parser_None)

lemma repo_structure_visit_file:
  "repo_structure (visit_file env p l root filename st) =
     (if snd (splitext filename) \<in> VALID_CPP_EXTENSIONS
      then AList.update (path_join root filename) (cpp_entry env p l (path_join root filename))
             (repo_structure st)
      else repo_structure st)"
  by (simp add: visit_file_cpp visit_file_skip store_file_def cpp_entry_def Let_def)

lemma file_count_visit_file:
  "file_count (visit_file env p l root filename st) =
     (if snd (splitext filename) \<in> VALID_CPP_EXTENSIONS then file_count st + 1 else file_count st)"
  by (simp add: visit_file_cpp visit_file_skip store_file_def Let_def)

lemma walk_loop_files:
  "walk_loop env p l st =
     fold (\<lambda>rf. visit_file env p l (fst rf) (snd rf)) (walk_files (os_walk env SRC_DIR)) st"
proof -
  have "fold (\<lambda>triple. fold (visit_file env p l (fst triple)) (snd (snd triple))) w s =
        fold (\<lambda>rf. visit_file env p l (fst rf) (snd rf)) (walk_files w) s" for w s
    by (induction w arbitrary: s) (simp_all add: walk_files_def fold_map comp_def)
  then show ?thesis by (simp add: walk_loop_def)
qed

lemma map_of_fold_visit:
  "map_of (repo_structure (fold (\<lambda>rf. visit_file env p l (fst rf) (snd rf)) fs st)) k =
     (if k \<in> (\<lambda>rf. path_join (fst rf) (snd rf)) ` {rf \<in> set fs. snd (splitext (snd rf)) \<in> VALID_CPP_EXTENSIONS}
      then Some (cpp_entry env p l k)
      else map_of (repo_structure st) k)"
proof (induction fs arbitrary: st)
  case Nil
  then show ?case by simp
next
  case (Cons rf fs)
  show ?case
    by (auto simp add: Cons.IH repo_structure_visit_file update_conv')
qed

lemma distinct_fold_visit:
  "distinct (map fst (repo_structure st)) \<Longrightarrow>
   distinct (map fst (repo_structure (fold (\<lambda>rf. visit_file env p l (fst rf) (snd rf)) fs st)))"
  by (induction fs arbitrary: st) (simp_all add: repo_structure_visit_file distinct_update)

lemma file_count_fold_visit:
  "file_count (fold (\<lambda>rf. visit_file env p l (fst rf) (snd rf)) fs st) =
     file_count st + length (filter (\<lambda>rf. snd (splitext (snd rf)) \<in> VALID_CPP_EXTENSIONS) fs)"
  by (induction fs arbitrary: st) (simp_all add: file_count_visit_file)

lemma fold_visit_skip_all:
  "list_all (\<lambda>rf. snd (splitext (snd rf)) \<notin> VALID_CPP_EXTENSIONS) fs \<Longrightarrow>
   fold (\<lambda>rf. visit_file env p l (fst rf) (snd rf)) fs st = st"
  by (induction fs arbitrary: st) (simp_all add: visit_file_skip)

lemma path_join_suffix:
  "entry_name f \<Longrightarrow> \<exists>x. path_join r f = x @ f \<and> (x = [] \<or> last x = 0x2F)"
  by (cases f) (auto simp add: path_join_def entry_name_def)

lemma suffix_unique:
  assumes "x @ f = x' @ f'" "0x2F \<notin> set f" "0x2F \<notin> set f'"
    "x = [] \<or> last x = (0x2F::nat)" "x' = [] \<or> last x' = 0x2F"
  shows "f = f'"
proof -
  from assms(1) obtain us where "x = x' @ us \<and> us @ f = f' \<or> x @ us = x' \<and> f = us @ f'"
    by (auto simp add: append_eq_append_conv2)
  then show ?thesis
  proof
    assume a: "x = x' @ us \<and> us @ f = f'"
    show ?thesis
    proof (cases "us = []")
      case True with a show ?thesis by simp
    next
      case False
      with a assms(4) have "last us = 0x2F" by auto
      with False have "0x2F \<in> set us" using last_in_set by metis
      with a assms(3) show ?thesis by auto
    qed
  next
    assume a: "x @ us = x' \<and> f = us @ f'"
    show ?thesis
    proof (cases "us = []")
      case True with a show ?thesis by simp
    next
      case False
      with a assms(5) have "last us = 0x2F" by auto
      with False have "0x2F \<in> set us" using last_in_set by metis
      with a assms(2) show ?thesis by auto
    qed
  qed
qed

lemma path_join_same_name:
  "entry_name f \<Longrightarrow> entry_name f' \<Longrightarrow> path_join r f = path_join r' f' \<Longrightarrow> f = f'"
  using path_join_suffix [of f r] path_join_suffix [of f' r'] suffix_unique
  by (metis entry_name_def)

subsection \<open>Decoding\<close>






subsection \<open>Text of a node\<close>





subsection \<open>Include paths\<close>











subsection \<open>Entries of a file\<close>

lemma bytes_strip_empty: "bytes_strip bs = [] \<longleftrightarrow> list_all is_space bs"
proof
  assume "list_all is_space bs"
  then have "dropWhile is_space bs = []" by (simp add: list_all_iff dropWhile_eq_Nil_conv)
  then show "bytes_strip bs = []" by (simp only: bytes_strip_def rev.simps dropWhile.simps)
next
  assume e: "bytes_strip bs = []"
  show "list_all is_space bs"
  proof (cases "dropWhile is_space bs = []")
    case True
    then show ?thesis by (simp add: list_all_iff dropWhile_eq_Nil_conv)
  next
    case False
    then have h: "\<not> is_space (hd (dropWhile is_space bs))" by (rule hd_dropWhile)
    from e have "\<forall>x\<in>set (dropWhile is_space bs). is_space x"
      by (simp add: bytes_strip_def dropWhile_eq_Nil_conv)
    with False h show ?thesis by (metis hd_in_set)
  qed
qed

lemma empty_file_entry_template:
  "empty_file_entry output_data_template =
     [(''includes'', PyList []), (''functions'', PyList []), (''classes'', PyList [])]"
  by (simp add: empty_file_entry_def output_data_template_def)


lemma cpp_entry_empty:
  "read_file env file_path = Inr content_bytes \<Longrightarrow> bytes_strip content_bytes = [] \<Longrightarrow>
   cpp_entry env p l file_path =
     [(''includes'', PyList []), (''functions'', PyList []), (''classes'', PyList [])]"
  by (simp add: cpp_entry_def analyze_file_def empty_file_entry_template)

lemma cpp_entry_blank:
  "read_file env file_path = Inr content_bytes \<Longrightarrow> list_all is_space content_bytes \<Longrightarrow>
   cpp_entry env p l file_path =
     [(''includes'', PyList []), (''functions'', PyList []), (''classes'', PyList [])]"
  by (simp add: cpp_entry_empty bytes_strip_empty)





lemma demo_walk_a_b:
  "walk_loop (demo_env walk_a_b) demo_parser demo_language initial_state =
    \<lparr>repo_structure =
       [(ascii ''./src/empty.h'',
         [(''includes'', PyList []), (''functions'', PyList []), (''classes'', PyList [])]),
        (ascii ''./src/blank.i'',
         [(''includes'', PyList []), (''functions'', PyList []), (''classes'', PyList [])])],
     file_count = 2,
     printed = [Loading_languages, Cpp_loaded, Analyzing_repository (ascii ''./src''),
                Analyzing_cpp_file (ascii ''./src/empty.h''), File_is_empty (ascii ''./src/empty.h''),
                Analyzing_cpp_file (ascii ''./src/blank.i''), File_is_empty (ascii ''./src/blank.i'')]\<rparr>"
  by (simp add: walk_loop_def demo_env_def walk_a_b_def visit_file_def splitext_def rfind_def
        slice_def VALID_CPP_EXTENSIONS_def path_join_def store_file_def analyze_file_def demo_read_def
        bytes_strip_def is_space_def bytes_of_def empty_file_entry_template initial_state_def
        SRC_DIR_def ascii_def Let_def)

subsection \<open>Runs on the small source tree\<close>

lemma demo_walk_b_a:
  "walk_loop (demo_env walk_b_a) demo_parser demo_language initial_state =
    \<lparr>repo_structure =
       [(ascii ''./src/blank.i'',
         [(''includes'', PyList []), (''functions'', PyList []), (''classes'', PyList [])]),
        (ascii ''./src/empty.h'',
         [(''includes'', PyList []), (''functions'', PyList []), (''classes'', PyList [])])],
     file_count = 2,
     printed = [Loading_languages, Cpp_loaded, Analyzing_repository (ascii ''./src''),
                Analyzing_cpp_file (ascii ''./src/blank.i''), File_is_empty (ascii ''./src/blank.i''),
                Analyzing_cpp_file (ascii ''./src/empty.h''), File_is_empty (ascii ''./src/empty.h'')]\<rparr>"
  by (simp add: walk_loop_def demo_env_def walk_b_a_def visit_file_def splitext_def rfind_def
        slice_def VALID_CPP_EXTENSIONS_def path_join_def store_file_def analyze_file_def demo_read_def
        bytes_strip_def is_space_def bytes_of_def empty_file_entry_template initial_state_def
        SRC_DIR_def ascii_def Let_def)


lemma demo_walk_no_sources:
  "walk_loop (demo_env walk_no_sources) demo_parser demo_language initial_state = initial_state"
  by (simp add: walk_loop_def demo_env_def walk_no_sources_def visit_file_def splitext_def rfind_def
        slice_def VALID_CPP_EXTENSIONS_def VALID_PYTHON_EXTENSIONS_def python_parser_def
        ascii_def Let_def)

subsection \<open>Which files get a record\<close>

lemma map_of_walk_loop:
  "map_of (repo_structure (walk_loop env p l initial_state)) k =
     (if k \<in> (\<lambda>rf. path_join (fst rf) (snd rf)) `
              {rf \<in> set (walk_files (os_walk env SRC_DIR)).
                 snd (splitext (snd rf)) \<in> VALID_CPP_EXTENSIONS}
      then Some (cpp_entry env p l k)
      else None)"
  by (simp add: walk_loop_files map_of_fold_visit initial_state_def)

lemma distinct_walk_loop:
  "distinct (map fst (repo_structure (walk_loop env p l initial_state)))"
  by (simp add: walk_loop_files distinct_fold_visit initial_state_def)


lemma skipped_file_no_record:
  assumes names: "entry_names (os_walk env SRC_DIR)"
    and mem: "(root, filename) \<in> set (walk_files (os_walk env SRC_DIR))"
    and ext: "snd (splitext filename) \<notin> VALID_CPP_EXTENSIONS"
  shows "map_of (repo_structure (walk_loop env p l initial_state)) (path_join root filename) = None"
proof -
  have "path_join root filename \<notin> (\<lambda>rf. path_join (fst rf) (snd rf)) `
              {rf \<in> set (walk_files (os_walk env SRC_DIR)).
                 snd (splitext (snd rf)) \<in> VALID_CPP_EXTENSIONS}"
  proof
    assume "path_join root filename \<in> (\<lambda>rf. path_join (fst rf) (snd rf)) `
              {rf \<in> set (walk_files (os_walk env SRC_DIR)).
                 snd (splitext (snd rf)) \<in> VALID_CPP_EXTENSIONS}"
    then obtain rf where rf: "rf \<in> set (walk_files (os_walk env SRC_DIR))"
      and c: "snd (splitext (snd rf)) \<in> VALID_CPP_EXTENSIONS"
      and j: "path_join root filename = path_join (fst rf) (snd rf)"
      by auto
    from names mem have "entry_name filename"
      by (auto simp add: entry_names_def list_all_iff)
    moreover from names rf have "entry_name (snd rf)"
      by (auto simp add: entry_names_def list_all_iff)
    ultimately have "filename = snd rf" using j by (rule path_join_same_name)
    with c ext show False by simp
  qed
  then show ?thesis by (simp add: map_of_walk_loop)
qed


lemma demo_walk_files:
  "walk_files (os_walk (demo_env demo_walk) SRC_DIR) =
     [(ascii ''./src'', ascii ''empty.h''), (ascii ''./src'', ascii ''README.md''),
      (ascii ''./src'', ascii ''use.cpp''), (ascii ''./src'', ascii ''tool.py''),
      (ascii ''./src'', ascii ''bad.h''), (ascii ''./src'', ascii ''gone.i'')]"
  by (simp add: walk_files_def demo_env_def demo_walk_def)

lemma splitext_examples:
  "snd (splitext (ascii ''empty.h'')) = ascii ''.h''"
  "snd (splitext (ascii ''README.md'')) = ascii ''.md''"
  "snd (splitext (ascii ''use.cpp'')) = ascii ''.cpp''"
  "snd (splitext (ascii ''tool.py'')) = ascii ''.py''"
  "snd (splitext (ascii ''bad.h'')) = ascii ''.h''"
  "snd (splitext (ascii ''gone.i'')) = ascii ''.i''"
  by (simp_all add: splitext_def rfind_def slice_def ascii_def)

lemma path_join_examples:
  "path_join (ascii ''./src'') (ascii ''empty.h'') = ascii ''./src/empty.h''"
  "path_join (ascii ''./src'') (ascii ''README.md'') = ascii ''./src/README.md''"
  "path_join (ascii ''./src'') (ascii ''use.cpp'') = ascii ''./src/use.cpp''"
  "path_join (ascii ''./src'') (ascii ''tool.py'') = ascii ''./src/tool.py''"
  "path_join (ascii ''./src'') (ascii ''bad.h'') = ascii ''./src/bad.h''"
  "path_join (ascii ''./src'') (ascii ''gone.i'') = ascii ''./src/gone.i''"
  by (simp_all add: path_join_def ascii_def)



subsection \<open>Skipped files and empty files\<close>

lemma demo_entry_names: "entry_names (os_walk (demo_env demo_walk) SRC_DIR)"
  by (simp add: entry_names_def demo_walk_files entry_name_def ascii_def)

text \<open>
  C8. A file of the walk whose extension is in neither registered set is skipped: the
  loop leaves its state as it was (no record, no error, nothing printed, not counted),
  and at the end of the walk the path of the file is not a key of the output mapping.
  The names that the walk yields are names of directory entries.
\<close>

theorem unrecognized_file_has_no_record:
  assumes "entry_names (os_walk env SRC_DIR)"
    and "(root, filename) \<in> set (walk_files (os_walk env SRC_DIR))"
    and "snd (splitext filename) \<notin> VALID_CPP_EXTENSIONS \<union> VALID_PYTHON_EXTENSIONS"
  shows "visit_file env cpp_parser cpp_lang_obj root filename st = st
         \<and> path_join root filename
             \<notin> fst ` set (repo_structure (walk_loop env cpp_parser cpp_lang_obj initial_state))
         \<and> map_of (repo_structure (walk_loop env cpp_parser cpp_lang_obj initial_state))
              (path_join root filename) = None"
proof -
  from assms(3) have c: "snd (splitext filename) \<notin> VALID_CPP_EXTENSIONS" by simp
  then have v: "visit_file env cpp_parser cpp_lang_obj root filename st = st"
    by (rule visit_file_skip)
  from skipped_file_no_record [OF assms(1) assms(2) c]
  have m: "map_of (repo_structure (walk_loop env cpp_parser cpp_lang_obj initial_state))
              (path_join root filename) = None" .
  then have "path_join root filename
             \<notin> fst ` set (repo_structure (walk_loop env cpp_parser cpp_lang_obj initial_state))"
    by (simp add: map_of_eq_None_iff)
  with v m show ?thesis by simp
qed

theorem unrecognized_file_has_no_record_witness:
  "entry_names (os_walk (demo_env demo_walk) SRC_DIR)
   \<and> (ascii ''./src'', ascii ''README.md'') \<in> set (walk_files (os_walk (demo_env demo_walk) SRC_DIR))
   \<and> snd (splitext (ascii ''README.md'')) \<notin> VALID_CPP_EXTENSIONS \<union> VALID_PYTHON_EXTENSIONS
   \<and> visit_file (demo_env demo_walk) demo_parser demo_language (ascii ''./src'') (ascii ''README.md'')
        initial_state = initial_state
   \<and> ascii ''./src/README.md''
       \<notin> fst ` set (repo_structure (walk_loop (demo_env demo_walk) demo_parser demo_language initial_state))
   \<and> map_of (repo_structure (walk_loop (demo_env demo_walk) demo_parser demo_language initial_state))
        (ascii ''./src/README.md'') = None"
proof -
  have m: "(ascii ''./src'', ascii ''README.md'') \<in> set (walk_files (os_walk (demo_env demo_walk) SRC_DIR))"
    by (simp add: demo_walk_files)
  have e: "snd (splitext (ascii ''README.md'')) \<notin> VALID_CPP_EXTENSIONS \<union> VALID_PYTHON_EXTENSIONS"
    by (simp only: splitext_examples) (simp add: VALID_CPP_EXTENSIONS_def VALID_PYTHON_EXTENSIONS_def ascii_def)
  note r = unrecognized_file_has_no_record
             [OF demo_entry_names m e, of demo_parser demo_language initial_state]
  from r [unfolded path_join_examples] demo_entry_names m e
  show ?thesis by blast
qed

text \<open>
  C10. The Python parser is None, so the branch of the loop for the extension .py is
  never taken: a file of the walk with that extension is skipped, and at the end of the
  walk its path is not a key of the output mapping. The names that the walk yields are
  names of directory entries.
\<close>

theorem py_file_has_no_record:
  assumes "entry_names (os_walk env SRC_DIR)"
    and "(root, filename) \<in> set (walk_files (os_walk env SRC_DIR))"
    and "snd (splitext filename) = ascii ''.py''"
  shows "(python_parser :: 'tree parser option) = None
         \<and> snd (splitext filename) \<in> VALID_PYTHON_EXTENSIONS
         \<and> visit_file env cpp_parser cpp_lang_obj root filename st = st
         \<and> path_join root filename
             \<notin> fst ` set (repo_structure
                             (walk_loop (env :: 'tree env) cpp_parser cpp_lang_obj initial_state))
         \<and> map_of (repo_structure (walk_loop env cpp_parser cpp_lang_obj initial_state))
              (path_join root filename) = None"
proof -
  from assms(3) have c: "snd (splitext filename) \<notin> VALID_CPP_EXTENSIONS"
    by (simp add: VALID_CPP_EXTENSIONS_def ascii_def)
  from assms(3) have y: "snd (splitext filename) \<in> VALID_PYTHON_EXTENSIONS"
    by (simp add: VALID_PYTHON_EXTENSIONS_def)
  from c have v: "visit_file env cpp_parser cpp_lang_obj root filename st = st"
    by (rule visit_file_skip)
  from skipped_file_no_record [OF assms(1) assms(2) c]
  have m: "map_of (repo_structure (walk_loop env cpp_parser cpp_lang_obj initial_state))
              (path_join root filename) = None" .
  then have "path_join root filename
             \<notin> fst ` set (repo_structure (walk_loop env cpp_parser cpp_lang_obj initial_state))"
    by (simp add: map_of_eq_None_iff)
  with v m y show ?thesis by (simp add: python_parser_None)
qed

theorem py_file_has_no_record_witness:
  "entry_names (os_walk (demo_env demo_walk) SRC_DIR)
   \<and> (ascii ''./src'', ascii ''tool.py'') \<in> set (walk_files (os_walk (demo_env demo_walk) SRC_DIR))
   \<and> snd (splitext (ascii ''tool.py'')) = ascii ''.py''
   \<and> visit_file (demo_env demo_walk) demo_parser demo_language (ascii ''./src'') (ascii ''tool.py'')
        initial_state = initial_state
   \<and> ascii ''./src/tool.py''
       \<notin> fst ` set (repo_structure (walk_loop (demo_env demo_walk) demo_parser demo_language initial_state))"
proof -
  have m: "(ascii ''./src'', ascii ''tool.py'') \<in> set (walk_files (os_walk (demo_env demo_walk) SRC_DIR))"
    by (simp add: demo_walk_files)
  have e: "snd (splitext (ascii ''tool.py'')) = ascii ''.py''"
    by (simp add: splitext_examples)
  note r = py_file_has_no_record
             [OF demo_entry_names m e, of demo_parser demo_language initial_state]
  from r [unfolded path_join_examples] demo_entry_names m e
  show ?thesis by blast
qed

text \<open>
  C5 holds in part only. The record of an empty file and of a file of white space has
  empty lists and the parser is not called, but the record has no error key: line 144
  deletes the key that line 143 set, and the loop of line 145 runs over the keys that
  are left. Here empty.h has no bytes and blank.i holds a space, a line feed and a tab.
\<close>

theorem empty_file_record_lacks_error:
  "map_of (repo_structure (walk_loop (demo_env walk_a_b) demo_parser demo_language initial_state))
     (ascii ''./src/empty.h'')
     = Some [(''includes'', PyList []), (''functions'', PyList []), (''classes'', PyList [])]
   \<and> map_of (repo_structure (walk_loop (demo_env walk_a_b) demo_parser demo_language initial_state))
     (ascii ''./src/blank.i'')
     = Some [(''includes'', PyList []), (''functions'', PyList []), (''classes'', PyList [])]
   \<and> map_of [(''includes'', PyList []), (''functions'', PyList []), (''classes'', PyList [])]
        ''error'' = None"
  by (simp add: demo_walk_a_b)

subsection \<open>A run that finds no file\<close>

lemma walk_loop_no_files:
  assumes "file_count (walk_loop env p l initial_state) = 0"
  shows "walk_loop env p l initial_state = initial_state"
proof -
  from assms have "filter (\<lambda>rf. snd (splitext (snd rf)) \<in> VALID_CPP_EXTENSIONS)
                     (walk_files (os_walk env SRC_DIR)) = []"
    by (simp add: walk_loop_files file_count_fold_visit initial_state_def)
  then have "list_all (\<lambda>rf. snd (splitext (snd rf)) \<notin> VALID_CPP_EXTENSIONS)
               (walk_files (os_walk env SRC_DIR))"
    by (simp add: filter_empty_conv list_all_iff)
  then show ?thesis
    by (simp add: walk_loop_files fold_visit_skip_all)
qed

lemma json_dumps_nonempty: "repo \<noteq> [] \<Longrightarrow> json_dumps repo \<noteq> json_dumps []"
  by (simp add: json_dumps_def json_dict_def newline_indent_def)

lemma main_written:
  "written (main env) = Some x \<Longrightarrow>
   \<exists>l p. get_language env ''cpp'' = Inr l \<and> get_parser env ''cpp'' = Inr p
         \<and> repo_structure (walk_loop env p l initial_state) \<noteq> []
         \<and> x = (OUTPUT_JSON, json_dumps (repo_structure (walk_loop env p l initial_state)))"
  by (auto simp add: main_def Let_def split: sum.splits if_splits option.splits)

text \<open>
  C9. When the languages are loaded, the source directory exists and the walk processes
  no file (the count of processed files, each of which leaves a record, is zero), the run
  prints that no valid source files were found, after the three lines that precede the
  walk, and writes no document. No run writes the document of an empty index.
\<close>

theorem no_files_no_document:
  "(get_language env ''cpp'' = Inr cpp_lang_obj \<and> get_parser env ''cpp'' = Inr cpp_parser
      \<and> os_path_exists env SRC_DIR
      \<and> file_count (walk_loop env cpp_parser cpp_lang_obj initial_state) = 0
    \<longrightarrow> main env =
          \<lparr>stdout = [Loading_languages, Cpp_loaded, Analyzing_repository SRC_DIR,
                     No_valid_source_files],
           written = None\<rparr>)
   \<and> written (main env) \<noteq> Some (OUTPUT_JSON, json_dumps [])"
proof
  show "get_language env ''cpp'' = Inr cpp_lang_obj \<and> get_parser env ''cpp'' = Inr cpp_parser
      \<and> os_path_exists env SRC_DIR
      \<and> file_count (walk_loop env cpp_parser cpp_lang_obj initial_state) = 0
    \<longrightarrow> main env =
          \<lparr>stdout = [Loading_languages, Cpp_loaded, Analyzing_repository SRC_DIR,
                     No_valid_source_files],
           written = None\<rparr>"
  proof
    assume a: "get_language env ''cpp'' = Inr cpp_lang_obj \<and> get_parser env ''cpp'' = Inr cpp_parser
      \<and> os_path_exists env SRC_DIR
      \<and> file_count (walk_loop env cpp_parser cpp_lang_obj initial_state) = 0"
    then have "walk_loop env cpp_parser cpp_lang_obj initial_state = initial_state"
      by (simp add: walk_loop_no_files)
    with a show "main env =
          \<lparr>stdout = [Loading_languages, Cpp_loaded, Analyzing_repository SRC_DIR,
                     No_valid_source_files],
           written = None\<rparr>"
      by (simp add: main_def initial_state_def)
  qed
next
  show "written (main env) \<noteq> Some (OUTPUT_JSON, json_dumps [])"
  proof
    assume "written (main env) = Some (OUTPUT_JSON, json_dumps [])"
    from main_written [OF this] json_dumps_nonempty show False by force
  qed
qed

theorem no_files_no_document_witness:
  "get_language (demo_env walk_no_sources) ''cpp'' = Inr demo_language
   \<and> get_parser (demo_env walk_no_sources) ''cpp'' = Inr demo_parser
   \<and> os_path_exists (demo_env walk_no_sources) SRC_DIR
   \<and> file_count (walk_loop (demo_env walk_no_sources) demo_parser demo_language initial_state) = 0
   \<and> main (demo_env walk_no_sources) =
          \<lparr>stdout = [Loading_languages, Cpp_loaded, Analyzing_repository SRC_DIR,
                     No_valid_source_files],
           written = None\<rparr>"
proof -
  have h: "get_language (demo_env walk_no_sources) ''cpp'' = Inr demo_language
   \<and> get_parser (demo_env walk_no_sources) ''cpp'' = Inr demo_parser
   \<and> os_path_exists (demo_env walk_no_sources) SRC_DIR
   \<and> file_count (walk_loop (demo_env walk_no_sources) demo_parser demo_language initial_state) = 0"
    by (simp add: demo_walk_no_sources) (simp add: demo_env_def initial_state_def)
  with no_files_no_document [of "demo_env walk_no_sources" demo_language demo_parser]
  show ?thesis by blast
qed

subsection \<open>Exceptions of a file\<close>







subsection \<open>Traversal order\<close>

lemma cpp_entry_os_walk:
  "cpp_entry (env\<lparr>os_walk := w\<rparr>) p l k = cpp_entry env p l k"
  by (simp add: cpp_entry_def analyze_file_def)

lemma visit_file_os_walk:
  "visit_file (env\<lparr>os_walk := w\<rparr>) p l root filename = visit_file env p l root filename"
  by (rule ext) (simp add: visit_file_def store_file_def analyze_file_def Let_def python_parser_None)

lemma walk_loop_os_walk:
  "walk_loop (env\<lparr>os_walk := (\<lambda>top. w)\<rparr>) p l st =
     fold (\<lambda>rf. visit_file env p l (fst rf) (snd rf)) (walk_files w) st"
  by (simp add: walk_loop_files visit_file_os_walk)

lemma main_os_walk:
  "walk_files w1 = walk_files w2 \<Longrightarrow>
   main (env\<lparr>os_walk := (\<lambda>top. w1)\<rparr>) = main (env\<lparr>os_walk := (\<lambda>top. w2)\<rparr>)"
  by (auto simp add: main_def walk_loop_os_walk Let_def split: sum.splits option.splits)

lemma main_writes:
  "get_language env ''cpp'' = Inr l \<Longrightarrow> get_parser env ''cpp'' = Inr p \<Longrightarrow>
   os_path_exists env SRC_DIR \<Longrightarrow> open_write env OUTPUT_JSON = None \<Longrightarrow>
   repo_structure (walk_loop env p l initial_state) \<noteq> [] \<Longrightarrow>
   written (main env)
     = Some (OUTPUT_JSON, json_dumps (repo_structure (walk_loop env p l initial_state)))"
  by (simp add: main_def Let_def)

lemma demo_env_loaded:
  "get_language (demo_env w) ''cpp'' = Inr demo_language"
  "get_parser (demo_env w) ''cpp'' = Inr demo_parser"
  "os_path_exists (demo_env w) SRC_DIR"
  "open_write (demo_env w) OUTPUT_JSON = None"
  by (simp_all add: demo_env_def)

text \<open>
  C1, as amended. For a fixed snapshot (the same results of reading each path) and two
  traversals that yield the same files, the two runs build the same mapping from path to
  record: the same keys, each with the same record. The order of the keys follows the
  order of the traversal; when both traversals yield the files in the same order, the
  two runs print the same lines and write byte-identical documents.
\<close>

theorem same_files_same_mapping:
  assumes "set (walk_files w1) = set (walk_files w2)"
  shows "map_of (repo_structure (walk_loop (env\<lparr>os_walk := (\<lambda>top. w1)\<rparr>) p l initial_state))
           = map_of (repo_structure (walk_loop (env\<lparr>os_walk := (\<lambda>top. w2)\<rparr>) p l initial_state))
         \<and> set (repo_structure (walk_loop (env\<lparr>os_walk := (\<lambda>top. w1)\<rparr>) p l initial_state))
           = set (repo_structure (walk_loop (env\<lparr>os_walk := (\<lambda>top. w2)\<rparr>) p l initial_state))
         \<and> (walk_files w1 = walk_files w2
            \<longrightarrow> main (env\<lparr>os_walk := (\<lambda>top. w1)\<rparr>) = main (env\<lparr>os_walk := (\<lambda>top. w2)\<rparr>))"
proof -
  have m: "map_of (repo_structure (walk_loop (env\<lparr>os_walk := (\<lambda>top. w1)\<rparr>) p l initial_state))
           = map_of (repo_structure (walk_loop (env\<lparr>os_walk := (\<lambda>top. w2)\<rparr>) p l initial_state))"
    using assms by (rule_tac ext) (simp add: map_of_walk_loop cpp_entry_os_walk)
  have s: "set (repo_structure (walk_loop (env\<lparr>os_walk := (\<lambda>top. w1)\<rparr>) p l initial_state))
           = set (repo_structure (walk_loop (env\<lparr>os_walk := (\<lambda>top. w2)\<rparr>) p l initial_state))"
    using m distinct_walk_loop map_of_inject_set by blast
  from m s main_os_walk show ?thesis by blast
qed

lemma demo_env_os_walk: "(demo_env v)\<lparr>os_walk := (\<lambda>top. w)\<rparr> = demo_env w"
  by (simp add: demo_env_def)

theorem same_files_same_mapping_witness:
  "set (walk_files walk_a_b) = set (walk_files walk_b_a)
   \<and> map_of (repo_structure (walk_loop (demo_env walk_a_b) demo_parser demo_language initial_state))
     = map_of (repo_structure (walk_loop (demo_env walk_b_a) demo_parser demo_language initial_state))
   \<and> set (repo_structure (walk_loop (demo_env walk_a_b) demo_parser demo_language initial_state))
     = set (repo_structure (walk_loop (demo_env walk_b_a) demo_parser demo_language initial_state))
   \<and> walk_files walk_a_b = walk_files walk_a_b_split
   \<and> main (demo_env walk_a_b) = main (demo_env walk_a_b_split)"
proof -
  have h: "set (walk_files walk_a_b) = set (walk_files walk_b_a)"
    by (auto simp add: walk_files_def walk_a_b_def walk_b_a_def)
  have g: "walk_files walk_a_b = walk_files walk_a_b_split"
    by (simp add: walk_files_def walk_a_b_def walk_a_b_split_def)
  then have g': "set (walk_files walk_a_b) = set (walk_files walk_a_b_split)"
    by simp
  note t1 = same_files_same_mapping [OF h, of "demo_env []" demo_parser demo_language,
                                     unfolded demo_env_os_walk]
  note t2 = same_files_same_mapping [OF g', of "demo_env []" demo_parser demo_language,
                                     unfolded demo_env_os_walk]
  from t1 t2 h g show ?thesis by blast
qed

text \<open>
  The claim as stated fails: the two traversals below yield the same two files of the
  same snapshot in opposite orders, and the documents written differ (their keys come in
  the order of the traversal).
\<close>

theorem traversal_order_counterexample:
  "mset (walk_files walk_a_b) = mset (walk_files walk_b_a)
   \<and> read_file (demo_env walk_a_b) = read_file (demo_env walk_b_a)
   \<and> written (main (demo_env walk_a_b)) \<noteq> written (main (demo_env walk_b_a))"
proof -
  have a: "mset (walk_files walk_a_b) = mset (walk_files walk_b_a)"
    by (simp add: walk_files_def walk_a_b_def walk_b_a_def)
  have r: "read_file (demo_env walk_a_b) = read_file (demo_env walk_b_a)"
    by (simp add: demo_env_def)
  have wa: "written (main (demo_env walk_a_b)) =
            Some (OUTPUT_JSON, json_dumps (repo_structure
                    (walk_loop (demo_env walk_a_b) demo_parser demo_language initial_state)))"
    by (rule main_writes [OF demo_env_loaded]) (simp add: demo_walk_a_b)
  have wb: "written (main (demo_env walk_b_a)) =
            Some (OUTPUT_JSON, json_dumps (repo_structure
                    (walk_loop (demo_env walk_b_a) demo_parser demo_language initial_state)))"
    by (rule main_writes [OF demo_env_loaded]) (simp add: demo_walk_b_a)
  have d: "json_dumps (repo_structure
             (walk_loop (demo_env walk_a_b) demo_parser demo_language initial_state))
           \<noteq> json_dumps (repo_structure
             (walk_loop (demo_env walk_b_a) demo_parser demo_language initial_state))"
    by (simp add: demo_walk_a_b demo_walk_b_a json_dumps_def json_dict_def json_entry_def
          json_list_def newline_indent_def encode_basestring_ascii_def json_escape_def ascii_def)
  from a r wa wb d show ?thesis by simp
qed

end
